theory Spec2Isabelle
  imports Main "HOL-Library.Word"
begin

section \<open>Data model (the interfaces of the types module)\<close>

text \<open>
  A JavaScript \<open>Date\<close> is represented by its time value, the number of milliseconds
  since the epoch. Comparing two dates with \<open><\<close> and \<open>>\<close> compares the time values and
  \<open>getTime()\<close> is the identity. The model covers the dates that denote a time: the
  invalid date, whose time value is \<open>NaN\<close>, is not represented. The arithmetic on time
  values is that of the integers; JavaScript numbers compute the same differences and
  the same floor of a quotient by the milliseconds of a day as long as the difference
  of the two time values is below \<open>2^53\<close> in magnitude, more than 285 000 years.
\<close>

type_synonym Date = int

text \<open>
  A distinguished name is an object whose keys are attribute short codes; a missing key
  reads as \<open>undefined\<close>, here \<open>None\<close>.
\<close>

type_synonym DistinguishedName = "string \<rightharpoonup> string"

datatype KeyAlgorithm = RSA | ECDSA

record PublicKeyInfo =
  algorithm :: KeyAlgorithm
  keySize :: int
  modulus :: "string option"
  exponent :: "string option"
  curve :: "string option"

text \<open>The entry that the library's \<open>getExtInfo\<close> holds for one extension.\<close>

record ExtInfo =
  extCritical :: "bool option"
  extData :: string

record CertificateExtension =
  oid :: string
  critical :: bool
  "value" :: ExtInfo

record Fingerprints =
  sha1 :: string
  sha256 :: string

record ParsedCertificate =
  version :: int
  serialNumber :: string
  issuer :: DistinguishedName
  subject :: DistinguishedName
  notBefore :: Date
  notAfter :: Date
  publicKey :: PublicKeyInfo
  signatureAlgorithm :: string
  extensions :: "CertificateExtension list"
  fingerprints :: Fingerprints
  raw :: string

datatype ErrorSeverity = Error | Critical

datatype WarningSeverity = Warning | Info

text \<open>
  \<open>ValidationError\<close> and \<open>ValidationWarning\<close> have the same three fields and differ in
  the type of \<open>severity\<close>.
\<close>

record 'sev ValidationEntry =
  code :: string
  message :: string
  severity :: 'sev

type_synonym ValidationError = "ErrorSeverity ValidationEntry"

type_synonym ValidationWarning = "WarningSeverity ValidationEntry"

datatype ValidationStatus = Valid | ValidWithWarnings | Invalid | Unknown

record ValidationOptions =
  trustedCAs :: "ParsedCertificate list option"
  checkRevocation :: bool
  validateTimestamp :: bool
  allowExpiredCertificates :: bool

record ValidationDetails =
  signatureValid :: bool
  certificateValid :: bool
  chainValid :: bool
  timestampValid :: "bool option"
  certificateChain :: "ParsedCertificate list"
  signedAt :: "Date option"
  validatedAt :: Date

record ValidationResult =
  valid :: bool
  status :: ValidationStatus
  errors :: "ValidationError list"
  warnings :: "ValidationWarning list"
  details :: ValidationDetails
  timestamp :: Date

section \<open>The library the code calls\<close>

text \<open>
  The cryptographic primitives, the ASN.1 and CMS codecs and the date functions belong to
  the \<open>jsrsasign\<close> package and to the JavaScript runtime, not to this program. Every
  function of the program takes them as a parameter, so each theorem holds whatever
  they compute. A call that can throw returns a sum: \<open>Inl m\<close> when it throws, \<open>m\<close> being
  the text that \<open>error.message\<close> reads from the thrown value, and \<open>Inr v\<close> when it
  returns \<open>v\<close>.
\<close>

type_synonym 'a throws = "string + 'a"

text \<open>
  A public key object, by what the program reads from it: for an \<open>RSAKey\<close> the results
  of \<open>n.bitLength()\<close>, \<open>n.toString(16)\<close> and \<open>e.toString(16)\<close>, for a
  \<open>KJUR.crypto.ECDSA\<close> object its \<open>curveName\<close>; \<open>OtherKey\<close> is an object of any other
  class.
\<close>

datatype PublicKey =
  RSAKey (nBitLength: int) (nHex: string) (eHex: string)
  | ECDSAKey (curveName: string)
  | OtherKey

text \<open>
  An \<open>X509\<close> object after \<open>readCertPEM\<close>, by the results of its accessors.
  \<open>getPublicKey\<close> throws for a key of an algorithm it does not know. \<open>getExtInfo\<close> is
  the result of the call \<open>getExtInfo()\<close> that \<open>parseExtensions\<close> makes, without the OID
  or name of an extension; a library whose \<open>getExtInfo\<close> reads that argument throws
  at this call, for every certificate.
\<close>

record X509 =
  x509version :: int
  getSerialNumberHex :: string
  getIssuerString :: string
  getSubjectString :: string
  getNotBefore :: string
  getNotAfter :: string
  getPublicKey :: "PublicKey throws"
  getSignatureAlgorithmName :: string
  getExtInfo :: "(string \<times> ExtInfo) list option throws"

text \<open>
  The object that \<open>getCMSSignedData\<close> returns has type \<open>any\<close>; these are the properties
  the validator reads from it. \<open>None\<close> is a property that is missing (\<open>undefined\<close>).
\<close>

record Attribute =
  attrType :: string
  attrValue :: "string option"

record SignerInfo =
  digestAlgorithm :: "string option"
  signature :: "string option"
  signedAttrs :: "Attribute list option"

record SignedData =
  certs :: "string list option"
  signerInfos :: "SignerInfo list option"

text \<open>The parameter object of one signer handed to the \<open>SignedData\<close> constructor.\<close>

record SignerInfoParam =
  paramHashAlg :: string
  paramSigningTime :: bool
  paramSignerCert :: string
  paramSigAlg :: string
  paramSignerPrvKey :: string

text \<open>
  \<open>signatureVerify alg key data sig\<close> is \<open>new Signature({alg})\<close>, \<open>init(key)\<close>,
  \<open>updateHex(data)\<close>, \<open>verify(sig)\<close>; \<open>signatureSign alg key data\<close> is the same
  with a private key in PEM and \<open>sign()\<close>; \<open>signedDataEncodedHex content certs infos\<close>
  is \<open>new SignedData({content: {hex}, certs, signerInfos})\<close> followed by
  \<open>getContentInfo().getEncodedHex()\<close>; \<open>x509VerifySignature pem key\<close> reads the
  certificate \<open>pem\<close> and calls \<open>verifySignature(key)\<close> on it.
\<close>

record Library =
  getCMSSignedData :: "string \<Rightarrow> SignedData option throws"
  getPEMStringFromHex :: "string \<Rightarrow> string \<Rightarrow> string throws"
  readCertPEM :: "string \<Rightarrow> X509 throws"
  pemtohex :: "string \<Rightarrow> string throws"
  hashHex :: "string \<Rightarrow> string \<Rightarrow> string throws"
  signatureVerify :: "string \<Rightarrow> PublicKey \<Rightarrow> string \<Rightarrow> string \<Rightarrow> bool throws"
  signatureSign :: "string \<Rightarrow> string \<Rightarrow> string \<Rightarrow> string throws"
  x509VerifySignature :: "string \<Rightarrow> PublicKey \<Rightarrow> bool throws"
  signedDataEncodedHex :: "string \<Rightarrow> string list \<Rightarrow> SignerInfoParam list \<Rightarrow> string throws"
  hextob64 :: "string \<Rightarrow> string"
  rstrtohex :: "string \<Rightarrow> string"
  arrayBufferToHex :: "8 word list \<Rightarrow> string"
  newDate :: "string \<Rightarrow> Date"
  toLocaleDateString :: "Date \<Rightarrow> string"

text \<open>
  The clock: the values of the calls of \<open>new Date()\<close> during one validation, in the
  order the validator makes them (at entry, in \<open>checkCertificateValidity\<close>, in
  \<open>validateTimestampValidity\<close>).
\<close>

record Clock =
  atEntry :: Date
  atValidityCheck :: Date
  atTimestampCheck :: Date

section \<open>Certificate parser\<close>

text \<open>
  \<open>String.prototype.split\<close> with a separator of one character: the pieces between the
  occurrences of the separator, empty pieces included.
\<close>

fun split :: "char \<Rightarrow> string \<Rightarrow> string list" where
  "split sep [] = [[]]"
| "split sep (c # cs) =
     (if c = sep then [] # split sep cs
      else (case split sep cs of
              [] \<Rightarrow> [[c]]
            | w # ws \<Rightarrow> (c # w) # ws))"

text \<open>
  One step of the \<open>forEach\<close> of \<open>parseDistinguishedName\<close>: the destructuring
  \<open>[key, value] = part.split('=')\<close> takes the first two pieces, and the assignment is
  made when both are non-empty strings.
\<close>

definition assignPart :: "string \<Rightarrow> DistinguishedName \<Rightarrow> DistinguishedName" where
  "assignPart part dn =
     (case split CHR ''='' part of
        key # val # rest \<Rightarrow> (if key \<noteq> [] \<and> val \<noteq> [] then dn(key \<mapsto> val) else dn)
      | _ \<Rightarrow> dn)"

definition parseDistinguishedName :: "string \<Rightarrow> DistinguishedName" where
  "parseDistinguishedName dnString =
     (let parts = filter (\<lambda>p. p \<noteq> []) (split CHR ''/'' dnString)
      in fold assignPart parts Map.empty)"

definition parsePublicKey :: "X509 \<Rightarrow> PublicKeyInfo throws" where
  "parsePublicKey x509 =
     (case getPublicKey x509 of
        Inl m \<Rightarrow> Inl m
      | Inr (RSAKey bits n e) \<Rightarrow>
          Inr \<lparr>algorithm = RSA, keySize = bits, modulus = Some n, exponent = Some e,
               curve = None\<rparr>
      | Inr (ECDSAKey name) \<Rightarrow>
          Inr \<lparr>algorithm = ECDSA, keySize = 256, modulus = None, exponent = None,
               curve = Some name\<rparr>
      | Inr OtherKey \<Rightarrow> Inl ''Unsupported public key algorithm'')"

definition parseExtensions :: "X509 \<Rightarrow> CertificateExtension list throws" where
  "parseExtensions x509 =
     (case getExtInfo x509 of
        Inl m \<Rightarrow> Inl m
      | Inr None \<Rightarrow> Inr []
      | Inr (Some extInfo) \<Rightarrow>
          Inr (map (\<lambda>(k, e). \<lparr>oid = k,
                              critical = (case extCritical e of None \<Rightarrow> False | Some b \<Rightarrow> b),
                              value = e\<rparr>) extInfo))"

text \<open>
  \<open>toUpperCase\<close> on the ASCII letters (a digest in hexadecimal has no other letter): the
  code of a small letter with the bit of value 32 cleared.
\<close>

definition upperChar :: "char \<Rightarrow> char" where
  "upperChar c =
     (if c \<in> set ''abcdefghijklmnopqrstuvwxyz''
      then (case c of Char b0 b1 b2 b3 b4 b5 b6 b7 \<Rightarrow> Char b0 b1 b2 b3 b4 False b6 b7)
      else c)"

definition toUpperCase :: "string \<Rightarrow> string" where
  "toUpperCase s = map upperChar s"

definition calculateFingerprints :: "Library \<Rightarrow> string \<Rightarrow> Fingerprints throws" where
  "calculateFingerprints lib pemCert =
     (case pemtohex lib pemCert of
        Inl m \<Rightarrow> Inl m
      | Inr certHex \<Rightarrow>
          (case hashHex lib certHex ''sha1'' of
             Inl m \<Rightarrow> Inl m
           | Inr h1 \<Rightarrow>
               (case hashHex lib certHex ''sha256'' of
                  Inl m \<Rightarrow> Inl m
                | Inr h256 \<Rightarrow> Inr \<lparr>sha1 = toUpperCase h1, sha256 = toUpperCase h256\<rparr>)))"

datatype CertFormat = Pem | Der | Pfx

text \<open>
  The body of the \<open>try\<close> of \<open>parseCertificate\<close>; \<open>Inl\<close> is what it throws. The fields
  of the result are computed in the order of the object literal, so of the calls that
  can throw \<open>parsePublicKey\<close> comes first, then \<open>parseExtensions\<close>, then
  \<open>calculateFingerprints\<close>.
\<close>

definition parseCertificateTry :: "Library \<Rightarrow> string \<Rightarrow> CertFormat \<Rightarrow> ParsedCertificate throws" where
  "parseCertificateTry lib certData fmt =
     (case (case fmt of
              Pem \<Rightarrow> Inr certData
            | Der \<Rightarrow> getPEMStringFromHex lib certData ''CERTIFICATE''
            | Pfx \<Rightarrow> Inl ''PFX format requires separate handling'') of
        Inl m \<Rightarrow> Inl m
      | Inr pemCert \<Rightarrow>
          (case readCertPEM lib pemCert of
             Inl m \<Rightarrow> Inl m
           | Inr x509 \<Rightarrow>
               (case parsePublicKey x509 of
                  Inl m \<Rightarrow> Inl m
                | Inr pk \<Rightarrow>
                    (case parseExtensions x509 of
                       Inl m \<Rightarrow> Inl m
                     | Inr exts \<Rightarrow>
                         (case calculateFingerprints lib pemCert of
                            Inl m \<Rightarrow> Inl m
                          | Inr fp \<Rightarrow>
                              Inr \<lparr>version = x509version x509,
                                   serialNumber = getSerialNumberHex x509,
                                   issuer = parseDistinguishedName (getIssuerString x509),
                                   subject = parseDistinguishedName (getSubjectString x509),
                                   notBefore = newDate lib (getNotBefore x509),
                                   notAfter = newDate lib (getNotAfter x509),
                                   publicKey = pk,
                                   signatureAlgorithm = getSignatureAlgorithmName x509,
                                   extensions = exts,
                                   fingerprints = fp,
                                   raw = pemCert\<rparr>)))))"

text \<open>The \<open>catch\<close> rethrows with a prefixed message.\<close>

definition parseCertificate :: "Library \<Rightarrow> string \<Rightarrow> CertFormat \<Rightarrow> ParsedCertificate throws" where
  "parseCertificate lib certData fmt =
     (case parseCertificateTry lib certData fmt of
        Inl m \<Rightarrow> Inl (''Failed to parse certificate: '' @ m)
      | Inr parsed \<Rightarrow> Inr parsed)"

record Expiration =
  isExpired :: bool
  daysUntilExpiration :: int

text \<open>
  \<open>checkCertificateExpiration\<close> reads the clock once; \<open>now\<close> is the value read.
  \<open>Math.floor\<close> of the quotient is the floor division \<open>div\<close> of the integers.
\<close>

definition checkCertificateExpiration :: "Date \<Rightarrow> ParsedCertificate \<Rightarrow> Expiration" where
  "checkCertificateExpiration now cert =
     \<lparr>isExpired = (now > notAfter cert),
      daysUntilExpiration = (notAfter cert - now) div (1000 * 60 * 60 * 24)\<rparr>"

section \<open>Signature validator\<close>

definition hexDigit :: "nat \<Rightarrow> char" where
  "hexDigit k = ''0123456789abcdef'' ! k"

text \<open>\<open>b.toString(16).padStart(2, '0')\<close> for one element of a \<open>Uint8Array\<close>.\<close>

definition byteToHex :: "8 word \<Rightarrow> string" where
  "byteToHex b = [hexDigit (unat b div 16), hexDigit (unat b mod 16)]"

definition toHex :: "8 word list \<Rightarrow> string" where
  "toHex document = concat (map byteToHex document)"

text \<open>\<open>x || d\<close> for a string property: \<open>undefined\<close> and the empty string are falsy.\<close>

definition orElse :: "string option \<Rightarrow> string \<Rightarrow> string" where
  "orElse x d = (case x of None \<Rightarrow> d | Some v \<Rightarrow> if v = [] then d else v)"

text \<open>
  Any throw inside \<open>extractSignerCertificate\<close> is caught there and gives \<open>null\<close>.
\<close>

definition extractSignerCertificate :: "Library \<Rightarrow> SignedData \<Rightarrow> ParsedCertificate option" where
  "extractSignerCertificate lib signedData =
     (case certs signedData of
        None \<Rightarrow> None
      | Some [] \<Rightarrow> None
      | Some (certHex # others) \<Rightarrow>
          (case getPEMStringFromHex lib certHex ''CERTIFICATE'' of
             Inl m \<Rightarrow> None
           | Inr certPem \<Rightarrow>
               (case parseCertificate lib certPem Pem of
                  Inl m \<Rightarrow> None
                | Inr cert \<Rightarrow> Some cert)))"

text \<open>
  \<open>signedData.signerInfos[0]\<close> throws a \<open>TypeError\<close> when \<open>signerInfos\<close> is missing and
  is \<open>undefined\<close> when the array is empty; every throw is caught and gives \<open>false\<close>.
\<close>

definition verifySignatureCryptography ::
  "Library \<Rightarrow> 8 word list \<Rightarrow> SignedData \<Rightarrow> ParsedCertificate \<Rightarrow> bool" where
  "verifySignatureCryptography lib document signedData certificate =
     (let documentHex = toHex document in
      case signerInfos signedData of
        None \<Rightarrow> False
      | Some infos \<Rightarrow>
          (let first = (case infos of [] \<Rightarrow> None | si # rest \<Rightarrow> Some si);
               sigAlg = (case first of
                           None \<Rightarrow> ''sha256''
                         | Some si \<Rightarrow> orElse (digestAlgorithm si) ''sha256'')
           in case hashHex lib documentHex sigAlg of
                Inl m \<Rightarrow> False
              | Inr hash \<Rightarrow>
                  (case (case first of None \<Rightarrow> None | Some si \<Rightarrow> signature si) of
                     None \<Rightarrow> False
                   | Some sigValue \<Rightarrow>
                       if sigValue = [] then False
                       else (case readCertPEM lib (raw certificate) of
                               Inl m \<Rightarrow> False
                             | Inr x509 \<Rightarrow>
                                 (case getPublicKey x509 of
                                    Inl m \<Rightarrow> False
                                  | Inr pubKey \<Rightarrow>
                                      (case signatureVerify lib (sigAlg @ ''withRSA'')
                                              pubKey hash sigValue of
                                         Inl m \<Rightarrow> False
                                       | Inr ok \<Rightarrow> ok))))))"

text \<open>
  The functions below return an object \<open>{valid, message}\<close>, here the pair
  \<open>(valid, message)\<close>. \<open>checkCertificateValidity\<close> reads the clock once (\<open>now\<close>).
\<close>

definition checkCertificateValidity ::
  "Library \<Rightarrow> Date \<Rightarrow> ParsedCertificate \<Rightarrow> bool \<Rightarrow> bool \<times> string" where
  "checkCertificateValidity lib now certificate allowExpired =
     (if now < notBefore certificate then (False, ''Certificate is not yet valid.'')
      else if now > notAfter certificate then
        (allowExpired,
         ''Certificate expired on '' @ toLocaleDateString lib (notAfter certificate) @ ''.'')
      else (True, ''Certificate is valid.''))"

definition validateCertificateChain ::
  "Library \<Rightarrow> ParsedCertificate \<Rightarrow> ParsedCertificate list \<Rightarrow> bool \<times> string" where
  "validateCertificateChain lib certificate cas =
     (if length cas = 0 then (True, ''Chain validation skipped (no trusted CAs provided).'')
      else if issuer certificate ''CN'' = subject certificate ''CN'' then
        (if list_ex (\<lambda>ca. sha256 (fingerprints ca) = sha256 (fingerprints certificate)) cas
         then (True, ''Self-signed certificate is trusted.'')
         else (False, ''Self-signed certificate is not in trusted CAs.''))
      else
        (case find (\<lambda>ca. subject ca ''CN'' = issuer certificate ''CN'') cas of
           None \<Rightarrow> (False, ''Certificate issuer not found in trusted CAs.'')
         | Some issuerCert \<Rightarrow>
             (case readCertPEM lib (raw certificate) of
                Inl m \<Rightarrow> (False, ''Chain validation error: '' @ m)
              | Inr x509 \<Rightarrow>
                  (case readCertPEM lib (raw issuerCert) of
                     Inl m \<Rightarrow> (False, ''Chain validation error: '' @ m)
                   | Inr issuerX509 \<Rightarrow>
                       (case getPublicKey issuerX509 of
                          Inl m \<Rightarrow> (False, ''Chain validation error: '' @ m)
                        | Inr issuerPubKey \<Rightarrow>
                            (case x509VerifySignature lib (raw certificate) issuerPubKey of
                               Inl m \<Rightarrow> (False, ''Chain validation error: '' @ m)
                             | Inr isValid \<Rightarrow>
                                 if \<not> isValid
                                 then (False, ''Certificate signature verification failed.'')
                                 else (True, ''Certificate chain is valid.'')))))))"

definition extractTimestamp :: "Library \<Rightarrow> SignedData \<Rightarrow> Date option" where
  "extractTimestamp lib signedData =
     (case signerInfos signedData of
        None \<Rightarrow> None
      | Some [] \<Rightarrow> None
      | Some (signerInfo # rest) \<Rightarrow>
          (case signedAttrs signerInfo of
             None \<Rightarrow> None
           | Some attrs \<Rightarrow>
               (case find (\<lambda>a. attrType a = ''1.2.840.113549.1.9.5'') attrs of
                  None \<Rightarrow> None
                | Some signingTime \<Rightarrow>
                    (case attrValue signingTime of
                       None \<Rightarrow> None
                     | Some v \<Rightarrow> if v = [] then None else Some (newDate lib v)))))"

definition validateTimestampValidity :: "Date \<Rightarrow> Date \<Rightarrow> bool" where
  "validateTimestampValidity now ts =
     (let maxAge = 365 * 24 * 60 * 60 * 1000 in
      if ts > now then False
      else if now - ts > maxAge then False
      else True)"

definition createValidationResult ::
  "bool \<Rightarrow> ValidationStatus \<Rightarrow> ValidationError list \<Rightarrow> ValidationWarning list \<Rightarrow> Date
   \<Rightarrow> ValidationResult" where
  "createValidationResult v st errs warns ts =
     \<lparr>valid = v, status = st, errors = errs, warnings = warns,
      details = \<lparr>signatureValid = False, certificateValid = False, chainValid = False,
                 timestampValid = None, certificateChain = [], signedAt = None,
                 validatedAt = ts\<rparr>,
      timestamp = ts\<rparr>"

text \<open>
  The body of the \<open>try\<close> of \<open>validateSignature\<close>. The arrays \<open>errors\<close> and \<open>warnings\<close>
  are threaded through it as lists: every \<open>push\<close> appends one entry. \<open>Inl (m, errs,
  warns)\<close> is a throw that reaches the \<open>catch\<close> of \<open>validateSignature\<close>, with the two
  arrays as they are at that moment. The calls that can throw outside an inner
  \<open>try\<close> are those that construct the CMS parser and decode the blob; the helper
  functions catch what is thrown inside them.
\<close>

definition validateSignatureTry ::
  "Library \<Rightarrow> Clock \<Rightarrow> 8 word list \<Rightarrow> string \<Rightarrow> ValidationOptions
   \<Rightarrow> (string \<times> ValidationError list \<times> ValidationWarning list) + ValidationResult" where
  "validateSignatureTry lib clock document sig options =
     (let errs0 = []; warns0 = []; ts = atEntry clock in
      case getCMSSignedData lib sig of
        Inl m \<Rightarrow> Inl (m, errs0, warns0)
      | Inr None \<Rightarrow>
          Inr (createValidationResult False Invalid
                 (errs0 @ [\<lparr>code = ''INVALID_SIGNATURE_FORMAT'',
                            message = ''Invalid signature format. Expected PKCS#7/CMS.'',
                            severity = Critical\<rparr>])
                 warns0 ts)
      | Inr (Some signedData) \<Rightarrow>
          (case extractSignerCertificate lib signedData of
             None \<Rightarrow>
               Inr (createValidationResult False Invalid
                      (errs0 @ [\<lparr>code = ''NO_SIGNER_CERTIFICATE'',
                                 message = ''No signer certificate found in signature.'',
                                 severity = Critical\<rparr>])
                      warns0 ts)
           | Some signerCert \<Rightarrow>
               (let sigOk = verifySignatureCryptography lib document signedData signerCert;
                    errs1 = (if \<not> sigOk
                             then errs0 @ [\<lparr>code = ''SIGNATURE_VERIFICATION_FAILED'',
                                             message = ''Signature verification failed. The document may have been modified.'',
                                             severity = Critical\<rparr>]
                             else errs0);
                    certValid = checkCertificateValidity lib (atValidityCheck clock) signerCert
                                  (allowExpiredCertificates options);
                    warns1 = (if \<not> fst certValid \<and> allowExpiredCertificates options
                              then warns0 @ [\<lparr>code = ''CERTIFICATE_EXPIRED'',
                                               message = snd certValid,
                                               severity = Warning\<rparr>]
                              else warns0);
                    errs2 = (if \<not> fst certValid \<and> \<not> allowExpiredCertificates options
                             then errs1 @ [\<lparr>code = ''CERTIFICATE_EXPIRED'',
                                             message = snd certValid,
                                             severity = Error\<rparr>]
                             else errs1);
                    chain = validateCertificateChain lib signerCert
                              (case trustedCAs options of None \<Rightarrow> [] | Some cas \<Rightarrow> cas);
                    errs3 = (if \<not> fst chain
                             then errs2 @ [\<lparr>code = ''CHAIN_VALIDATION_FAILED'',
                                             message = snd chain,
                                             severity = Error\<rparr>]
                             else errs2);
                    signedAtV = extractTimestamp lib signedData;
                    warns2 = (case signedAtV of
                                None \<Rightarrow> warns1
                              | Some t \<Rightarrow>
                                  if validateTimestamp options
                                     \<and> \<not> validateTimestampValidity (atTimestampCheck clock) t
                                  then warns1 @ [\<lparr>code = ''INVALID_TIMESTAMP'',
                                                   message = ''Timestamp is outside acceptable range.'',
                                                   severity = Warning\<rparr>]
                                  else warns1);
                    v = (length errs3 = 0);
                    st = (if v then (if length warns2 > 0 then ValidWithWarnings else Valid)
                          else Invalid)
                in Inr \<lparr>valid = v, status = st, errors = errs3, warnings = warns2,
                        details = \<lparr>signatureValid = sigOk,
                                   certificateValid = fst certValid,
                                   chainValid = fst chain,
                                   timestampValid =
                                     (case signedAtV of None \<Rightarrow> None | Some t \<Rightarrow> Some True),
                                   certificateChain = [signerCert],
                                   signedAt = signedAtV,
                                   validatedAt = ts\<rparr>,
                        timestamp = ts\<rparr>)))"

text \<open>\<open>validateSignature\<close>: the \<open>try\<close> with its \<open>catch\<close>.\<close>

definition validateSignature ::
  "Library \<Rightarrow> Clock \<Rightarrow> 8 word list \<Rightarrow> string \<Rightarrow> ValidationOptions \<Rightarrow> ValidationResult" where
  "validateSignature lib clock document sig options =
     (case validateSignatureTry lib clock document sig options of
        Inl (m, errs, warns) \<Rightarrow>
          createValidationResult False Invalid
            (errs @ [\<lparr>code = ''VALIDATION_ERROR'',
                       message = ''Validation failed: '' @ m,
                       severity = Critical\<rparr>])
            warns (atEntry clock)
      | Inr r \<Rightarrow> r)"

text \<open>
  The default value of the parameter \<open>options\<close>, which is also what the object \<open>{}\<close>
  reads as: no trusted CAs and three falsy flags.
\<close>

definition defaultOptions :: ValidationOptions where
  "defaultOptions =
     \<lparr>trustedCAs = None, checkRevocation = False, validateTimestamp = False,
      allowExpiredCertificates = False\<rparr>"

section \<open>Signature generator\<close>

datatype HashAlgorithm = SHA256 | SHA384 | SHA512

datatype SignatureFormat = Pkcs7 | Detached | Pdf

text \<open>
  Fields that several interfaces name alike carry a prefix here: \<open>optAlgorithm\<close> and
  \<open>optFormat\<close> are \<open>algorithm\<close> and \<open>format\<close> of \<open>SignatureOptions\<close>, the \<open>res\<close>
  fields those of \<open>SignatureResult\<close>, the \<open>meta\<close> fields those of
  \<open>SignatureMetadata\<close>.
\<close>

record SignatureOptions =
  optAlgorithm :: HashAlgorithm
  optFormat :: SignatureFormat
  includeTimestamp :: bool
  timestampURL :: "string option"

record SignatureMetadata =
  metaSignedAt :: Date
  signerInfo :: DistinguishedName
  metaAlgorithm :: string
  hashAlgorithm :: HashAlgorithm
  certificateFingerprint :: string

record SignatureResult =
  resSignature :: string
  resFormat :: SignatureFormat
  resAlgorithm :: string
  certificate :: ParsedCertificate
  resTimestamp :: "Date option"
  metadata :: SignatureMetadata

datatype DocumentData = Text string | Buffer "8 word list"

text \<open>
  \<open>options.algorithm.replace('-', '').toLowerCase()\<close> on the three values of the type
  \<open>HashAlgorithm\<close>, which are \<open>'SHA-256'\<close>, \<open>'SHA-384'\<close> and \<open>'SHA-512'\<close>.
\<close>

definition hashAlgOf :: "HashAlgorithm \<Rightarrow> string" where
  "hashAlgOf a = (case a of SHA256 \<Rightarrow> ''sha256'' | SHA384 \<Rightarrow> ''sha384'' | SHA512 \<Rightarrow> ''sha512'')"

text \<open>The two readings of the clock that \<open>createSignature\<close> makes for its result.\<close>

record SignClock =
  atTimestamp :: Date
  atSignedAt :: Date

definition createSignatureTry ::
  "Library \<Rightarrow> SignClock \<Rightarrow> DocumentData \<Rightarrow> ParsedCertificate \<Rightarrow> string \<Rightarrow> SignatureOptions
   \<Rightarrow> SignatureResult throws" where
  "createSignatureTry lib clock documentData cert privateKeyPEM options =
     (let documentHex = (case documentData of
                           Text str \<Rightarrow> rstrtohex lib str
                         | Buffer buf \<Rightarrow> arrayBufferToHex lib buf);
          hashAlg = hashAlgOf (optAlgorithm options)
      in case hashHex lib documentHex hashAlg of
           Inl m \<Rightarrow> Inl m
         | Inr documentHash \<Rightarrow>
             (let sigAlg = (if algorithm (publicKey cert) = RSA
                            then hashAlg @ ''withRSA''
                            else hashAlg @ ''withECDSA'')
              in case signatureSign lib sigAlg privateKeyPEM documentHash of
                   Inl m \<Rightarrow> Inl m
                 | Inr signatureHex \<Rightarrow>
                     (case (if optFormat options = Pkcs7
                            then (case signedDataEncodedHex lib documentHex [raw cert]
                                         [\<lparr>paramHashAlg = hashAlg,
                                           paramSigningTime = True,
                                           paramSignerCert = raw cert,
                                           paramSigAlg = sigAlg,
                                           paramSignerPrvKey = privateKeyPEM\<rparr>] of
                                    Inl m \<Rightarrow> Inl m
                                  | Inr encoded \<Rightarrow> Inr (hextob64 lib encoded))
                            else Inr (hextob64 lib signatureHex)) of
                        Inl m \<Rightarrow> Inl m
                      | Inr signatureBase64 \<Rightarrow>
                          Inr \<lparr>resSignature = signatureBase64,
                               resFormat = optFormat options,
                               resAlgorithm = sigAlg,
                               certificate = cert,
                               resTimestamp = (if includeTimestamp options
                                               then Some (atTimestamp clock) else None),
                               metadata = \<lparr>metaSignedAt = atSignedAt clock,
                                            signerInfo = subject cert,
                                            metaAlgorithm = sigAlg,
                                            hashAlgorithm = optAlgorithm options,
                                            certificateFingerprint =
                                              sha256 (fingerprints cert)\<rparr>\<rparr>)))"

definition createSignature ::
  "Library \<Rightarrow> SignClock \<Rightarrow> DocumentData \<Rightarrow> ParsedCertificate \<Rightarrow> string \<Rightarrow> SignatureOptions
   \<Rightarrow> SignatureResult throws" where
  "createSignature lib clock documentData cert privateKeyPEM options =
     (case createSignatureTry lib clock documentData cert privateKeyPEM options of
        Inl m \<Rightarrow> Inl (''Failed to create signature: '' @ m)
      | Inr r \<Rightarrow> Inr r)"

section \<open>A small instance of the library\<close>

text \<open>
  The theorems below hold for every library. To run the program on concrete inputs a
  library is needed, and this one is symbolic: a digest is the text of its input
  tagged with the algorithm, a signature is the text of the signed data tagged with
  the key, the PEM, hexadecimal and base64 encodings are the identity, and the CMS
  codec knows three blobs: \<open>3082\<close> holds the certificate \<open>A\<close>, a signature of the
  document \<open>hi\<close> and the signing time; \<open>3081\<close> holds the certificate \<open>E\<close>, whose key
  is an ECDSA key, instead of \<open>A\<close>; \<open>3080\<close> is \<open>3082\<close> with a message digest
  attribute in place of the signing time. The private key \<open>K\<close> belongs to the public
  key of the certificate \<open>A\<close>: verification under that public key accepts what \<open>K\<close>
  signs. In \<open>demoLib\<close> the call \<open>getExtInfo()\<close> returns \<open>undefined\<close>; \<open>strictLib\<close> is
  the same library with a \<open>getExtInfo\<close> that throws when it is called without the
  name of an extension.
\<close>

definition demoX509 :: "string \<Rightarrow> string \<Rightarrow> PublicKey \<Rightarrow> X509" where
  "demoX509 iss sub key =
     \<lparr>x509version = 3, getSerialNumberHex = ''01'',
      getIssuerString = ''/CN='' @ iss, getSubjectString = ''/CN='' @ sub,
      getNotBefore = ''nb'', getNotAfter = ''na'',
      getPublicKey = Inr key,
      getSignatureAlgorithmName = ''SHA256withRSA'',
      getExtInfo = Inr None\<rparr>"

definition demoKey :: PublicKey where
  "demoKey = RSAKey 2048 ''c0de'' ''10001''"

definition demoSignedData :: SignedData where
  "demoSignedData =
     \<lparr>certs = Some [''A''],
      signerInfos = Some [\<lparr>digestAlgorithm = Some ''sha256'',
                           signature = Some ''S-K-sha256:6869'',
                           signedAttrs = Some [\<lparr>attrType = ''1.2.840.113549.1.9.5'',
                                                attrValue = Some ''st''\<rparr>]\<rparr>]\<rparr>"

definition demoEcData :: SignedData where
  "demoEcData =
     \<lparr>certs = Some [''E''],
      signerInfos = Some [\<lparr>digestAlgorithm = Some ''sha256'',
                           signature = Some ''S-K-sha256:6869'',
                           signedAttrs = Some [\<lparr>attrType = ''1.2.840.113549.1.9.5'',
                                                attrValue = Some ''st''\<rparr>]\<rparr>]\<rparr>"

definition demoPlainData :: SignedData where
  "demoPlainData =
     \<lparr>certs = Some [''A''],
      signerInfos = Some [\<lparr>digestAlgorithm = Some ''sha256'',
                           signature = Some ''S-K-sha256:6869'',
                           signedAttrs = Some [\<lparr>attrType = ''1.2.840.113549.1.9.4'',
                                                attrValue = Some ''6869''\<rparr>]\<rparr>]\<rparr>"

definition demoLib :: Library where
  "demoLib =
     \<lparr>getCMSSignedData = (\<lambda>s. if s = ''3082'' then Inr (Some demoSignedData)
                                else if s = ''3081'' then Inr (Some demoEcData)
                                else if s = ''3080'' then Inr (Some demoPlainData)
                                else if s = [] then Inr None
                                else Inl ''malformed ASN.1''),
      getPEMStringFromHex = (\<lambda>h t. Inr h),
      readCertPEM = (\<lambda>p. if p = ''A'' then Inr (demoX509 ''Alice'' ''Alice'' demoKey)
                           else if p = ''E'' then Inr (demoX509 ''Root'' ''Eve'' (ECDSAKey ''secp384r1''))
                           else Inl ''not a certificate''),
      pemtohex = (\<lambda>p. Inr p),
      hashHex = (\<lambda>h alg. if alg \<in> {''sha1'', ''sha256'', ''sha384'', ''sha512''}
                           then Inr (alg @ '':'' @ h) else Inl ''unsupported algorithm''),
      signatureVerify = (\<lambda>alg key d sg. Inr (key = demoKey \<and> sg = ''S-K-'' @ d)),
      signatureSign = (\<lambda>alg key d. Inr (''S-'' @ key @ ''-'' @ d)),
      x509VerifySignature = (\<lambda>pem key. Inr (key = demoKey)),
      signedDataEncodedHex = (\<lambda>content cs infos. if cs = [''A''] then Inr ''3082''
                                                    else if cs = [''E''] then Inr ''3081''
                                                    else Inl ''not a certificate''),
      hextob64 = (\<lambda>h. h),
      rstrtohex = (\<lambda>str. str),
      arrayBufferToHex = toHex,
      newDate = (\<lambda>str. if str = ''nb'' then 1000 else if str = ''na'' then 2000
                         else if str = ''st'' then 1500 else 0),
      toLocaleDateString = (\<lambda>d. ''1/1/1970'')\<rparr>"

definition strictLib :: Library where
  "strictLib =
     demoLib\<lparr>readCertPEM :=
       (\<lambda>p. case readCertPEM demoLib p of
               Inl m \<Rightarrow> Inl m
             | Inr x \<Rightarrow> Inr (x\<lparr>getExtInfo := Inl ''the name of the extension is undefined''\<rparr>))\<rparr>"

text \<open>The certificate that \<open>parseCertificate\<close> makes of \<open>A\<close>: valid from 1000 to 2000.\<close>

definition demoCert :: ParsedCertificate where
  "demoCert =
     \<lparr>version = 3, serialNumber = ''01'',
      issuer = [''CN'' \<mapsto> ''Alice''], subject = [''CN'' \<mapsto> ''Alice''],
      notBefore = 1000, notAfter = 2000,
      publicKey = \<lparr>algorithm = RSA, keySize = 2048, modulus = Some ''c0de'',
                    exponent = Some ''10001'', curve = None\<rparr>,
      signatureAlgorithm = ''SHA256withRSA'',
      extensions = [],
      fingerprints = \<lparr>sha1 = ''SHA1:A'', sha256 = ''SHA256:A''\<rparr>,
      raw = ''A''\<rparr>"

text \<open>The certificate that \<open>parseCertificate\<close> makes of \<open>E\<close>.\<close>

definition demoEcCert :: ParsedCertificate where
  "demoEcCert =
     \<lparr>version = 3, serialNumber = ''01'',
      issuer = [''CN'' \<mapsto> ''Root''], subject = [''CN'' \<mapsto> ''Eve''],
      notBefore = 1000, notAfter = 2000,
      publicKey = \<lparr>algorithm = ECDSA, keySize = 256, modulus = None,
                    exponent = None, curve = Some ''secp384r1''\<rparr>,
      signatureAlgorithm = ''SHA256withRSA'',
      extensions = [],
      fingerprints = \<lparr>sha1 = ''SHA1:E'', sha256 = ''SHA256:E''\<rparr>,
      raw = ''E''\<rparr>"

text \<open>The document \<open>hi\<close>, and clocks inside, before and after the validity window.\<close>

definition demoDocument :: "8 word list" where
  "demoDocument = [0x68, 0x69]"

definition demoClock :: Clock where
  "demoClock = \<lparr>atEntry = 1600, atValidityCheck = 1601, atTimestampCheck = 1602\<rparr>"

definition earlyClock :: Clock where
  "earlyClock = \<lparr>atEntry = 500, atValidityCheck = 501, atTimestampCheck = 502\<rparr>"

definition lateClock :: Clock where
  "lateClock = \<lparr>atEntry = 3000, atValidityCheck = 3001, atTimestampCheck = 3002\<rparr>"

definition demoSignClock :: SignClock where
  "demoSignClock = \<lparr>atTimestamp = 1500, atSignedAt = 1500\<rparr>"

text \<open>A clock that runs behind the signing time 1500 of the known blob.\<close>

definition behindClock :: Clock where
  "behindClock = \<lparr>atEntry = 1400, atValidityCheck = 1401, atTimestampCheck = 1402\<rparr>"

definition pkcs7Options :: SignatureOptions where
  "pkcs7Options =
     \<lparr>optAlgorithm = SHA256, optFormat = Pkcs7, includeTimestamp = False,
      timestampURL = None\<rparr>"

section \<open>The program on the small instance\<close>

lemma demo_toHex: "toHex demoDocument = ''6869''"
  by (simp add: toHex_def demoDocument_def byteToHex_def hexDigit_def)

lemma demo_parse: "parseCertificate demoLib ''A'' Pem = Inr demoCert"
  by (simp add: parseCertificate_def parseCertificateTry_def demoLib_def demoX509_def demoKey_def
      parsePublicKey_def calculateFingerprints_def parseExtensions_def demoCert_def
      parseDistinguishedName_def assignPart_def toUpperCase_def upperChar_def)

text \<open>
  \<open>parseDistinguishedName\<close> on names with a repeated key, with a second \<open>=\<close> in a
  part and with a part without \<open>=\<close>.
\<close>

lemma parseDistinguishedName_examples:
  "parseDistinguishedName ''/CN=first/O=Org/CN=second'' ''CN'' = Some ''second''
   \<and> parseDistinguishedName ''/CN=first/O=Org/CN=second'' ''O'' = Some ''Org''
   \<and> parseDistinguishedName ''/CN=a=b/OU'' ''CN'' = Some ''a''
   \<and> parseDistinguishedName ''/CN=a=b/OU'' ''OU'' = None"
  by (simp add: parseDistinguishedName_def assignPart_def)

lemma demo_decode: "getCMSSignedData demoLib ''3082'' = Inr (Some demoSignedData)"
  by (simp add: demoLib_def)

lemma demo_signer: "extractSignerCertificate demoLib demoSignedData = Some demoCert"
  using demo_parse by (simp add: extractSignerCertificate_def demoSignedData_def demoLib_def)

lemma demo_verify: "verifySignatureCryptography demoLib demoDocument demoSignedData demoCert"
  by (simp add: verifySignatureCryptography_def demo_toHex demoSignedData_def orElse_def
      demoLib_def demoCert_def demoX509_def)

lemma demo_timestamp: "extractTimestamp demoLib demoSignedData = Some 1500"
  by (simp add: extractTimestamp_def demoSignedData_def demoLib_def)

section \<open>The return paths of the validator\<close>

text \<open>
  \<open>validateSignature\<close> returns in four places: from the \<open>catch\<close>, after a blob that
  does not decode, after a blob without a signer certificate, and at the end, after
  every check has run.
\<close>

lemma validateSignature_thrown:
  assumes "getCMSSignedData lib sg = Inl m"
  shows "validateSignatureTry lib clock doc sg opts = Inl (m, [], [])"
    and "validateSignature lib clock doc sg opts =
           createValidationResult False Invalid
             [\<lparr>code = ''VALIDATION_ERROR'', message = ''Validation failed: '' @ m,
               severity = Critical\<rparr>] [] (atEntry clock)"
  using assms by (simp_all add: validateSignature_def validateSignatureTry_def)

lemma validateSignature_undecodable:
  assumes "getCMSSignedData lib sg = Inr None"
  shows "validateSignatureTry lib clock doc sg opts = Inr (validateSignature lib clock doc sg opts)"
    and "validateSignature lib clock doc sg opts =
           createValidationResult False Invalid
             [\<lparr>code = ''INVALID_SIGNATURE_FORMAT'',
               message = ''Invalid signature format. Expected PKCS#7/CMS.'',
               severity = Critical\<rparr>] [] (atEntry clock)"
  using assms by (simp_all add: validateSignature_def validateSignatureTry_def)

lemma validateSignature_no_signer:
  assumes "getCMSSignedData lib sg = Inr (Some sd)" "extractSignerCertificate lib sd = None"
  shows "validateSignatureTry lib clock doc sg opts = Inr (validateSignature lib clock doc sg opts)"
    and "validateSignature lib clock doc sg opts =
           createValidationResult False Invalid
             [\<lparr>code = ''NO_SIGNER_CERTIFICATE'',
               message = ''No signer certificate found in signature.'',
               severity = Critical\<rparr>] [] (atEntry clock)"
  using assms by (simp_all add: validateSignature_def validateSignatureTry_def)

lemma checked_try:
  assumes "getCMSSignedData lib sg = Inr (Some sd)" "extractSignerCertificate lib sd = Some c"
  shows "validateSignatureTry lib clock doc sg opts = Inr (validateSignature lib clock doc sg opts)"
  using assms by (simp add: validateSignature_def validateSignatureTry_def Let_def)

lemma checked_errors:
  assumes "getCMSSignedData lib sg = Inr (Some sd)" "extractSignerCertificate lib sd = Some c"
  shows "errors (validateSignature lib clock doc sg opts) =
           (if verifySignatureCryptography lib doc sd c then []
            else [\<lparr>code = ''SIGNATURE_VERIFICATION_FAILED'',
                    message = ''Signature verification failed. The document may have been modified.'',
                    severity = Critical\<rparr>])
           @ (if \<not> fst (checkCertificateValidity lib (atValidityCheck clock) c (allowExpiredCertificates opts))
                 \<and> \<not> allowExpiredCertificates opts
              then [\<lparr>code = ''CERTIFICATE_EXPIRED'',
                      message = snd (checkCertificateValidity lib (atValidityCheck clock) c (allowExpiredCertificates opts)),
                      severity = Error\<rparr>]
              else [])
           @ (if fst (validateCertificateChain lib c (case trustedCAs opts of None \<Rightarrow> [] | Some cas \<Rightarrow> cas))
              then []
              else [\<lparr>code = ''CHAIN_VALIDATION_FAILED'',
                      message = snd (validateCertificateChain lib c (case trustedCAs opts of None \<Rightarrow> [] | Some cas \<Rightarrow> cas)),
                      severity = Error\<rparr>])"
  using assms
  by (cases "allowExpiredCertificates opts")
     (simp_all add: validateSignature_def validateSignatureTry_def Let_def)

lemma checked_warnings:
  assumes "getCMSSignedData lib sg = Inr (Some sd)" "extractSignerCertificate lib sd = Some c"
  shows "warnings (validateSignature lib clock doc sg opts) =
           (if \<not> fst (checkCertificateValidity lib (atValidityCheck clock) c (allowExpiredCertificates opts))
               \<and> allowExpiredCertificates opts
            then [\<lparr>code = ''CERTIFICATE_EXPIRED'',
                    message = snd (checkCertificateValidity lib (atValidityCheck clock) c (allowExpiredCertificates opts)),
                    severity = Warning\<rparr>]
            else [])
           @ (case extractTimestamp lib sd of
                None \<Rightarrow> []
              | Some t \<Rightarrow>
                  if validateTimestamp opts \<and> \<not> validateTimestampValidity (atTimestampCheck clock) t
                  then [\<lparr>code = ''INVALID_TIMESTAMP'',
                          message = ''Timestamp is outside acceptable range.'',
                          severity = Warning\<rparr>]
                  else [])"
  using assms
  by (cases "allowExpiredCertificates opts")
     (simp_all add: validateSignature_def validateSignatureTry_def Let_def split: option.split)

lemma checked_details:
  assumes "getCMSSignedData lib sg = Inr (Some sd)" "extractSignerCertificate lib sd = Some c"
  shows "details (validateSignature lib clock doc sg opts) =
           \<lparr>signatureValid = verifySignatureCryptography lib doc sd c,
            certificateValid = fst (checkCertificateValidity lib (atValidityCheck clock) c (allowExpiredCertificates opts)),
            chainValid = fst (validateCertificateChain lib c (case trustedCAs opts of None \<Rightarrow> [] | Some cas \<Rightarrow> cas)),
            timestampValid = (case extractTimestamp lib sd of None \<Rightarrow> None | Some t \<Rightarrow> Some True),
            certificateChain = [c],
            signedAt = extractTimestamp lib sd,
            validatedAt = atEntry clock\<rparr>"
  using assms by (simp add: validateSignature_def validateSignatureTry_def Let_def)

lemma checked_valid:
  assumes "getCMSSignedData lib sg = Inr (Some sd)" "extractSignerCertificate lib sd = Some c"
  shows "valid (validateSignature lib clock doc sg opts)
           = (errors (validateSignature lib clock doc sg opts) = [])"
    and "status (validateSignature lib clock doc sg opts)
           = (if valid (validateSignature lib clock doc sg opts)
              then (if length (warnings (validateSignature lib clock doc sg opts)) > 0
                    then ValidWithWarnings else Valid)
              else Invalid)"
  using assms by (simp_all add: validateSignature_def validateSignatureTry_def Let_def)

lemma demo_errors:
  "errors (validateSignature demoLib demoClock demoDocument ''3082'' defaultOptions) = []"
  using demo_verify
  by (simp add: checked_errors [OF demo_decode demo_signer] checkCertificateValidity_def
      validateCertificateChain_def defaultOptions_def demoClock_def demoCert_def)

lemma demo_warnings:
  "warnings (validateSignature demoLib demoClock demoDocument ''3082'' defaultOptions) = []"
  by (simp add: checked_warnings [OF demo_decode demo_signer] checkCertificateValidity_def
      demo_timestamp defaultOptions_def demoClock_def demoCert_def)

lemma demo_junk: "getCMSSignedData demoLib ''junk'' = Inl ''malformed ASN.1''"
  by (simp add: demoLib_def)

lemma behind_reading: "atTimestampCheck behindClock = 1402"
  by (simp add: behindClock_def)

lemma behind_signedAt:
  "signedAt (details (validateSignature demoLib behindClock demoDocument ''3082''
      (defaultOptions\<lparr>validateTimestamp := True\<rparr>))) = Some 1500"
  by (simp add: checked_details [OF demo_decode demo_signer] demo_timestamp)

lemma demo_plain: "getCMSSignedData demoLib ''3080'' = Inr (Some demoPlainData)"
  by (simp add: demoLib_def)

lemma demo_plain_attrs:
  "\<forall>si rest attrs. signerInfos demoPlainData = Some (si # rest) \<longrightarrow> signedAttrs si = Some attrs
     \<longrightarrow> (\<forall>a \<in> set attrs. attrType a \<noteq> ''1.2.840.113549.1.9.5'')"
  by (auto simp add: demoPlainData_def)

lemma demo_parse_E: "parseCertificate demoLib ''E'' Pem = Inr demoEcCert"
  by (simp add: parseCertificate_def parseCertificateTry_def demoLib_def demoX509_def
      parsePublicKey_def calculateFingerprints_def parseExtensions_def demoEcCert_def
      parseDistinguishedName_def assignPart_def toUpperCase_def upperChar_def)

lemma demo_decode_E: "getCMSSignedData demoLib ''3081'' = Inr (Some demoEcData)"
  by (simp add: demoLib_def)

lemma demo_signer_E: "extractSignerCertificate demoLib demoEcData = Some demoEcCert"
  using demo_parse_E by (simp add: extractSignerCertificate_def demoEcData_def demoLib_def)

lemma demo_rejects_EC:
  "\<forall>alg name h s. signatureVerify demoLib (alg @ ''withRSA'') (ECDSAKey name) h s \<noteq> Inr True"
  by (simp add: demoLib_def demoKey_def)

lemma strict_created:
  "createSignature strictLib demoSignClock (Buffer demoDocument) demoCert ''K'' pkcs7Options
     = Inr \<lparr>resSignature = ''3082'', resFormat = Pkcs7, resAlgorithm = ''sha256withRSA'',
            certificate = demoCert, resTimestamp = None,
            metadata = \<lparr>metaSignedAt = 1500, signerInfo = subject demoCert,
                         metaAlgorithm = ''sha256withRSA'', hashAlgorithm = SHA256,
                         certificateFingerprint = ''SHA256:A''\<rparr>\<rparr>"
  by (simp add: createSignature_def createSignatureTry_def pkcs7Options_def hashAlgOf_def
      strictLib_def demoLib_def demo_toHex demoCert_def demoSignClock_def Let_def)

lemma demo_created_E:
  "createSignature demoLib demoSignClock (Buffer demoDocument) demoEcCert ''K'' pkcs7Options
     = Inr \<lparr>resSignature = ''3081'', resFormat = Pkcs7, resAlgorithm = ''sha256withECDSA'',
            certificate = demoEcCert, resTimestamp = None,
            metadata = \<lparr>metaSignedAt = 1500, signerInfo = subject demoEcCert,
                         metaAlgorithm = ''sha256withECDSA'', hashAlgorithm = SHA256,
                         certificateFingerprint = ''SHA256:E''\<rparr>\<rparr>"
  by (simp add: createSignature_def createSignatureTry_def pkcs7Options_def hashAlgOf_def
      demoLib_def demo_toHex demoEcCert_def demoSignClock_def Let_def)

lemma demo_E_algorithm: "algorithm (publicKey demoEcCert) = ECDSA"
  by (simp add: demoEcCert_def)

lemma demo_hashAlg: "hashAlgOf (optAlgorithm pkcs7Options) = ''sha256''"
  by (simp add: pkcs7Options_def hashAlgOf_def)

lemma strict_throws:
  "\<forall>pem x. readCertPEM strictLib pem = Inr x \<longrightarrow> (\<exists>m. getExtInfo x = Inl m)"
  by (auto simp add: strictLib_def demoLib_def split: sum.splits if_splits)

section \<open>Expiration of a certificate\<close>

lemma days_mono:
  fixes a :: int
  assumes "n \<le> n'"
  shows "(a - n') div 86400000 \<le> (a - n) div 86400000"
  using assms by (intro zdiv_mono1) auto

lemma days_strict:
  fixes a :: int
  assumes "n + 86400000 \<le> n'"
  shows "(a - n') div 86400000 < (a - n) div 86400000"
proof -
  have "(a - n') div 86400000 \<le> (a - n - 86400000) div 86400000"
    using assms by (intro zdiv_mono1) auto
  also have "\<dots> = (a - n) div 86400000 - 1"
    by simp
  finally show ?thesis by simp
qed

text \<open>
  Claim C7, as amended. \<open>daysUntilExpiration\<close> is the floor division of \<open>notAfter - now\<close>
  by the milliseconds of a day and \<open>isExpired\<close> holds exactly when \<open>now\<close> is after
  \<open>notAfter\<close>. As \<open>now\<close> advances, an expired certificate stays expired, so \<open>isExpired\<close>
  changes once, at \<open>notAfter\<close>; \<open>daysUntilExpiration\<close> never increases, and it
  decreases strictly when \<open>now\<close> advances by a day or more.
\<close>

theorem checkCertificateExpiration_in_time:
  "daysUntilExpiration (checkCertificateExpiration now cert)
     = (notAfter cert - now) div (1000 * 60 * 60 * 24)
   \<and> isExpired (checkCertificateExpiration now cert) = (notAfter cert < now)
   \<and> (now \<le> later \<longrightarrow>
        (isExpired (checkCertificateExpiration now cert)
           \<longrightarrow> isExpired (checkCertificateExpiration later cert))
        \<and> daysUntilExpiration (checkCertificateExpiration later cert)
            \<le> daysUntilExpiration (checkCertificateExpiration now cert))
   \<and> (now + 1000 * 60 * 60 * 24 \<le> later \<longrightarrow>
        daysUntilExpiration (checkCertificateExpiration later cert)
          < daysUntilExpiration (checkCertificateExpiration now cert))"
  using days_mono [of now later "notAfter cert"] days_strict [of now later "notAfter cert"]
  by (simp add: checkCertificateExpiration_def)

text \<open>
  Claim C7, witness: the certificate \<open>A\<close>, which expires at 2000, read at time 0, one day
  later, and at 3000, when it has been expired for less than a day and the floor
  division gives -1.
\<close>

theorem checkCertificateExpiration_in_time_witness:
  "daysUntilExpiration (checkCertificateExpiration 86400000 demoCert)
     < daysUntilExpiration (checkCertificateExpiration 0 demoCert)
   \<and> daysUntilExpiration (checkCertificateExpiration 0 demoCert) = 0
   \<and> \<not> isExpired (checkCertificateExpiration 0 demoCert)
   \<and> daysUntilExpiration (checkCertificateExpiration 3000 demoCert) = - 1
   \<and> isExpired (checkCertificateExpiration 3000 demoCert)"
  using checkCertificateExpiration_in_time [of 0 demoCert 86400000]
    checkCertificateExpiration_in_time [of 3000 demoCert 3000]
  by (simp add: demoCert_def)

text \<open>
  Claim C7, counterexample to the claim as stated: between the times 1 and 2 the clock
  advances and \<open>daysUntilExpiration\<close> of the certificate \<open>A\<close> stays 0, so it does not
  decrease strictly.
\<close>

theorem days_not_strictly_decreasing:
  "(1 :: int) < 2
   \<and> \<not> daysUntilExpiration (checkCertificateExpiration 2 demoCert)
        < daysUntilExpiration (checkCertificateExpiration 1 demoCert)"
  by (simp add: checkCertificateExpiration_def demoCert_def)

section \<open>Validity, status and the returned structure\<close>

text \<open>
  Claim C1. For every library, clock, document, blob and options, the result of
  \<open>validateSignature\<close> has \<open>valid\<close> true exactly when \<open>errors\<close> is empty, and its
  \<open>status\<close> is \<open>valid\<close> when it is valid without warnings, \<open>valid-with-warnings\<close> when
  it is valid with warnings, and \<open>invalid\<close> when it is not valid.
\<close>

theorem validateSignature_valid_status:
  "(let r = validateSignature lib clock doc sg opts in
      valid r = (errors r = [])
      \<and> status r = (if valid r
                    then (if length (warnings r) > 0 then ValidWithWarnings else Valid)
                    else Invalid))"
proof (cases "getCMSSignedData lib sg")
  case (Inl m)
  then show ?thesis
    by (simp add: validateSignature_thrown createValidationResult_def)
next
  case (Inr decoded)
  show ?thesis
  proof (cases decoded)
    case None
    with Inr show ?thesis
      by (simp add: validateSignature_undecodable createValidationResult_def)
  next
    case (Some sd)
    show ?thesis
    proof (cases "extractSignerCertificate lib sd")
      case None
      with Inr Some show ?thesis
        by (simp add: validateSignature_no_signer createValidationResult_def)
    next
      case (Some c)
      with Inr \<open>decoded = Some sd\<close> have
        d: "getCMSSignedData lib sg = Inr (Some sd)" and e: "extractSignerCertificate lib sd = Some c"
        by simp_all
      show ?thesis
        using checked_valid [OF d e, of clock doc opts] by (simp add: Let_def)
    qed
  qed
qed

text \<open>
  Claim C1, witness: the known blob validated inside the validity window has no error
  and no warning, so it is valid with status \<open>valid\<close>.
\<close>

theorem validateSignature_valid_status_witness:
  "errors (validateSignature demoLib demoClock demoDocument ''3082'' defaultOptions) = []
   \<and> valid (validateSignature demoLib demoClock demoDocument ''3082'' defaultOptions)
   \<and> status (validateSignature demoLib demoClock demoDocument ''3082'' defaultOptions) = Valid"
  using validateSignature_valid_status [where lib = demoLib and clock = demoClock
        and doc = demoDocument and sg = "''3082''" and opts = defaultOptions]
  by (simp add: Let_def demo_errors demo_warnings)

text \<open>
  Claim C2. \<open>validateSignature\<close> always returns a result. Its \<open>try\<close> block throws only
  when decoding the blob throws, before any entry is pushed; the \<open>catch\<close> then returns
  a result whose only error is the critical entry \<open>VALIDATION_ERROR\<close>, with \<open>valid\<close>
  false and status \<open>invalid\<close>. Every failure of a check (format, signer certificate,
  signature, validity window, chain, timestamp) is a result returned by the \<open>try\<close>
  block itself.
\<close>

theorem validateSignature_catches:
  "(case validateSignatureTry lib clock doc sg opts of
      Inl (m, errs, warns) \<Rightarrow>
        getCMSSignedData lib sg = Inl m \<and> errs = [] \<and> warns = []
        \<and> errors (validateSignature lib clock doc sg opts)
            = [\<lparr>code = ''VALIDATION_ERROR'', message = ''Validation failed: '' @ m,
                severity = Critical\<rparr>]
        \<and> \<not> valid (validateSignature lib clock doc sg opts)
        \<and> status (validateSignature lib clock doc sg opts) = Invalid
    | Inr r \<Rightarrow>
        (\<exists>decoded. getCMSSignedData lib sg = Inr decoded)
        \<and> validateSignature lib clock doc sg opts = r)"
proof (cases "getCMSSignedData lib sg")
  case (Inl m)
  then show ?thesis
    by (simp add: validateSignature_thrown createValidationResult_def)
next
  case (Inr decoded)
  show ?thesis
  proof (cases decoded)
    case None
    with Inr show ?thesis
      by (simp add: validateSignature_undecodable(1))
  next
    case (Some sd)
    show ?thesis
    proof (cases "extractSignerCertificate lib sd")
      case None
      with Inr Some show ?thesis
        by (simp add: validateSignature_no_signer(1))
    next
      case (Some c)
      with Inr \<open>decoded = Some sd\<close> show ?thesis
        by (simp add: checked_try)
    qed
  qed
qed

text \<open>
  Claim C2, witness: a blob that the decoder rejects with an exception.
\<close>

theorem validateSignature_catches_witness:
  "validateSignatureTry demoLib demoClock demoDocument ''junk'' defaultOptions
     = Inl (''malformed ASN.1'', [], [])
   \<and> errors (validateSignature demoLib demoClock demoDocument ''junk'' defaultOptions)
       = [\<lparr>code = ''VALIDATION_ERROR'', message = ''Validation failed: malformed ASN.1'',
           severity = Critical\<rparr>]
   \<and> status (validateSignature demoLib demoClock demoDocument ''junk'' defaultOptions) = Invalid"
  using validateSignature_catches [where lib = demoLib and clock = demoClock
        and doc = demoDocument and sg = "''junk''" and opts = defaultOptions]
  by (simp add: validateSignature_thrown(1) [OF demo_junk])

text \<open>
  Claim C8, as amended. \<open>details.certificateChain\<close> is the one-element list of the
  signer certificate when the blob decodes and a signer certificate is extracted
  from it; on the three early returns (the \<open>catch\<close>, a blob that does not decode, no
  signer certificate) it is empty.
\<close>

theorem certificateChain_of_result:
  "certificateChain (details (validateSignature lib clock doc sg opts)) =
     (case getCMSSignedData lib sg of
        Inl m \<Rightarrow> []
      | Inr None \<Rightarrow> []
      | Inr (Some sd) \<Rightarrow>
          (case extractSignerCertificate lib sd of None \<Rightarrow> [] | Some c \<Rightarrow> [c]))"
  by (simp add: validateSignature_thrown validateSignature_undecodable
      validateSignature_no_signer checked_details createValidationResult_def
      split: sum.split option.split)

text \<open>Claim C8, witness: the known blob, whose signer certificate is \<open>A\<close>.\<close>

theorem certificateChain_of_result_witness:
  "certificateChain (details (validateSignature demoLib demoClock demoDocument ''3082''
      defaultOptions)) = [demoCert]"
  using certificateChain_of_result [where lib = demoLib and clock = demoClock
        and doc = demoDocument and sg = "''3082''" and opts = defaultOptions]
  by (simp add: demo_decode demo_signer)

text \<open>
  Claim C8, counterexample to the claim as stated: for a blob that the decoder rejects
  the result comes from \<open>createValidationResult\<close>, and its certificate chain is empty.
\<close>

theorem certificateChain_empty_on_early_return:
  "certificateChain (details (validateSignature demoLib demoClock demoDocument ''junk''
      defaultOptions)) = []"
  by (simp add: validateSignature_thrown(2) [OF demo_junk] createValidationResult_def)

section \<open>Extraction of the signer certificate\<close>

text \<open>
  A signer certificate is extracted only when \<open>parseCertificate\<close> returns, and then
  neither \<open>getPublicKey\<close> nor the call \<open>getExtInfo()\<close> has thrown on the certificate.
  With a library whose \<open>getExtInfo\<close> throws at that call no signer certificate is ever
  extracted, and every validation of a blob that decodes ends at the early return
  \<open>NO_SIGNER_CERTIFICATE\<close>.
\<close>

lemma parseCertificate_Inr:
  assumes "parseCertificate lib pem Pem = Inr c"
  shows "raw c = pem
         \<and> (\<exists>x ext. readCertPEM lib pem = Inr x \<and> getExtInfo x = Inr ext
                     \<and> parsePublicKey x = Inr (publicKey c))"
proof (cases "readCertPEM lib pem")
  case (Inl m)
  with assms show ?thesis
    by (simp add: parseCertificate_def parseCertificateTry_def)
next
  case (Inr x)
  note x509 = this
  show ?thesis
  proof (cases "parsePublicKey x")
    case (Inl m)
    with assms x509 show ?thesis
      by (simp add: parseCertificate_def parseCertificateTry_def)
  next
    case (Inr pk)
    note key = this
    show ?thesis
    proof (cases "getExtInfo x")
      case (Inl m)
      with assms x509 key show ?thesis
        by (simp add: parseCertificate_def parseCertificateTry_def parseExtensions_def)
    next
      case (Inr ext)
      with assms x509 key show ?thesis
        by (cases "calculateFingerprints lib pem"; cases ext)
           (auto simp add: parseCertificate_def parseCertificateTry_def parseExtensions_def)
    qed
  qed
qed

lemma extractSignerCertificate_Some:
  assumes "extractSignerCertificate lib sd = Some c"
  shows "\<exists>x ext. readCertPEM lib (raw c) = Inr x \<and> getExtInfo x = Inr ext
                 \<and> parsePublicKey x = Inr (publicKey c)"
proof -
  from assms obtain pem where "parseCertificate lib pem Pem = Inr c"
    by (auto simp add: extractSignerCertificate_def
        split: option.splits list.splits sum.splits)
  from parseCertificate_Inr [OF this] show ?thesis by auto
qed

lemma parsePublicKey_algorithm:
  assumes "parsePublicKey x = Inr pk" and "algorithm pk = ECDSA"
  shows "\<exists>name. getPublicKey x = Inr (ECDSAKey name)"
proof (cases "getPublicKey x")
  case (Inl m)
  with assms show ?thesis by (simp add: parsePublicKey_def)
next
  case (Inr k)
  with assms show ?thesis by (cases k) (auto simp add: parsePublicKey_def)
qed

lemma throwing_getExtInfo_no_signer:
  assumes "\<forall>pem x. readCertPEM lib pem = Inr x \<longrightarrow> (\<exists>m. getExtInfo x = Inl m)"
  shows "extractSignerCertificate lib sd = None"
proof (cases "extractSignerCertificate lib sd")
  case None
  then show ?thesis .
next
  case (Some c)
  from extractSignerCertificate_Some [OF this] assms show ?thesis by force
qed


section \<open>The validity window\<close>

lemma late_reading: "atValidityCheck lateClock = 3001"
  by (simp add: lateClock_def)

lemma demo_window: "notBefore demoCert = 1000" "notAfter demoCert = 2000"
  by (simp_all add: demoCert_def)

lemma early_reading: "atValidityCheck earlyClock = 501"
  by (simp add: earlyClock_def)

text \<open>
  Where the validity check is reached: a certificate that is not yet valid, validated
  with \<open>allowExpiredCertificates\<close> set. \<open>checkCertificateValidity\<close> answers
  \<open>valid: false\<close>, and the caller pushes the answer as a warning with the code
  \<open>CERTIFICATE_EXPIRED\<close> instead of an error.
\<close>

theorem not_yet_valid_downgraded:
  assumes "getCMSSignedData lib sg = Inr (Some sd)"
    and "extractSignerCertificate lib sd = Some c"
    and "atValidityCheck clock < notBefore c"
    and "allowExpiredCertificates opts"
  shows "\<lparr>code = ''CERTIFICATE_EXPIRED'', message = ''Certificate is not yet valid.'',
          severity = Warning\<rparr> \<in> set (warnings (validateSignature lib clock doc sg opts))
         \<and> (\<forall>e \<in> set (errors (validateSignature lib clock doc sg opts)).
               code e \<noteq> ''CERTIFICATE_EXPIRED'')
         \<and> \<not> certificateValid (details (validateSignature lib clock doc sg opts))"
  using assms(3,4)
  by (simp add: checked_errors [OF assms(1,2)] checked_warnings [OF assms(1,2)]
      checked_details [OF assms(1,2)] checkCertificateValidity_def)

text \<open>The known blob validated at 501, before its certificate becomes valid at 1000.\<close>

theorem not_yet_valid_downgraded_witness:
  "\<not> certificateValid (details (validateSignature demoLib earlyClock demoDocument ''3082''
      (defaultOptions\<lparr>allowExpiredCertificates := True\<rparr>)))"
  using not_yet_valid_downgraded [OF demo_decode demo_signer, where clock = earlyClock
      and opts = "defaultOptions\<lparr>allowExpiredCertificates := True\<rparr>" and doc = demoDocument]
  by (simp add: early_reading demo_window)

text \<open>
  Where the validity check is reached: an expired certificate, validated with
  \<open>allowExpiredCertificates\<close> set.
  \<open>checkCertificateValidity\<close> answers \<open>valid: true\<close>, so the caller pushes nothing; the
  result reports the certificate as valid and carries no entry \<open>CERTIFICATE_EXPIRED\<close>,
  neither an error nor a warning.
\<close>

theorem expired_tolerated_without_entry:
  assumes "getCMSSignedData lib sg = Inr (Some sd)"
    and "extractSignerCertificate lib sd = Some c"
    and "notBefore c \<le> atValidityCheck clock"
    and "notAfter c < atValidityCheck clock"
    and "allowExpiredCertificates opts"
  shows "certificateValid (details (validateSignature lib clock doc sg opts))
         \<and> (\<forall>e \<in> set (errors (validateSignature lib clock doc sg opts)).
               code e \<noteq> ''CERTIFICATE_EXPIRED'')
         \<and> (\<forall>w \<in> set (warnings (validateSignature lib clock doc sg opts)).
               code w \<noteq> ''CERTIFICATE_EXPIRED'')"
  using assms(3,4,5)
  by (simp add: checked_errors [OF assms(1,2)] checked_warnings [OF assms(1,2)]
      checked_details [OF assms(1,2)] checkCertificateValidity_def split: option.split)
     auto

text \<open>The known blob validated at 3001, after its certificate expired at 2000.\<close>

theorem expired_tolerated_without_entry_witness:
  "certificateValid (details (validateSignature demoLib lateClock demoDocument ''3082''
      (defaultOptions\<lparr>allowExpiredCertificates := True\<rparr>)))"
  using expired_tolerated_without_entry [OF demo_decode demo_signer, where clock = lateClock
      and opts = "defaultOptions\<lparr>allowExpiredCertificates := True\<rparr>" and doc = demoDocument]
  by (simp add: late_reading demo_window)



section \<open>The chain of trust\<close>

lemma chain_skipped: "validateCertificateChain lib c [] =
    (True, ''Chain validation skipped (no trusted CAs provided).'')"
  by (simp add: validateCertificateChain_def)

text \<open>
  Claim C5, as amended. When the caller supplies no trusted CAs (\<open>trustedCAs\<close> missing
  or empty), no error \<open>CHAIN_VALIDATION_FAILED\<close> is emitted on any return path, and
  whenever the blob decodes and a signer certificate is extracted, so that the chain
  step is reached, \<open>details.chainValid\<close> is true.
\<close>

theorem no_trusted_CAs_chain_skipped:
  assumes "trustedCAs opts = None \<or> trustedCAs opts = Some []"
  shows "(\<forall>e \<in> set (errors (validateSignature lib clock doc sg opts)).
            code e \<noteq> ''CHAIN_VALIDATION_FAILED'')
         \<and> (\<forall>sd c. getCMSSignedData lib sg = Inr (Some sd)
                   \<longrightarrow> extractSignerCertificate lib sd = Some c
                   \<longrightarrow> chainValid (details (validateSignature lib clock doc sg opts)))"
proof -
  have cas: "(case trustedCAs opts of None \<Rightarrow> [] | Some cas \<Rightarrow> cas) = []"
    using assms by auto
  show ?thesis
  proof (cases "getCMSSignedData lib sg")
    case (Inl m)
    then show ?thesis
      by (simp add: validateSignature_thrown createValidationResult_def)
  next
    case (Inr decoded)
    show ?thesis
    proof (cases decoded)
      case None
      with Inr show ?thesis
        by (simp add: validateSignature_undecodable createValidationResult_def)
    next
      case (Some sd)
      show ?thesis
      proof (cases "extractSignerCertificate lib sd")
        case None
        with Inr Some show ?thesis
          by (simp add: validateSignature_no_signer createValidationResult_def)
      next
        case (Some c)
        with Inr \<open>decoded = Some sd\<close> have
          d: "getCMSSignedData lib sg = Inr (Some sd)"
          and e: "extractSignerCertificate lib sd = Some c"
          by simp_all
        show ?thesis
          by (simp add: d e checked_errors [OF d e] checked_details [OF d e] cas chain_skipped)
      qed
    qed
  qed
qed

text \<open>Claim C5, witness: the known blob validated with the default options.\<close>

theorem no_trusted_CAs_chain_skipped_witness:
  "chainValid (details (validateSignature demoLib demoClock demoDocument ''3082''
      defaultOptions))"
  using no_trusted_CAs_chain_skipped [where opts = defaultOptions and lib = demoLib
      and clock = demoClock and doc = demoDocument and sg = "''3082''"]
  by (simp add: defaultOptions_def demo_decode demo_signer)

text \<open>
  Claim C5, counterexample to the claim as stated: no trusted CAs are supplied and the
  decoder rejects the blob; the result comes from \<open>createValidationResult\<close>, where
  \<open>chainValid\<close> is false.
\<close>

theorem chain_not_valid_on_early_return:
  "trustedCAs defaultOptions = None
   \<and> \<not> chainValid (details (validateSignature demoLib demoClock demoDocument ''junk''
          defaultOptions))"
  by (simp add: validateSignature_thrown(2) [OF demo_junk] createValidationResult_def
      defaultOptions_def)

text \<open>
  Claim C6. For a signer certificate whose issuer CN equals its subject CN and a
  non-empty list of trusted CAs, \<open>validateCertificateChain\<close> answers valid exactly when
  some trusted CA has the SHA-256 fingerprint of the certificate; \<open>details.chainValid\<close>
  of a validation that extracts this certificate is that answer.
\<close>

theorem self_signed_chain_iff_fingerprint:
  assumes "cas \<noteq> []" and "issuer cert ''CN'' = subject cert ''CN''"
  shows "fst (validateCertificateChain lib cert cas)
           = (\<exists>ca \<in> set cas. sha256 (fingerprints ca) = sha256 (fingerprints cert))
         \<and> (getCMSSignedData lib sg = Inr (Some sd)
              \<and> extractSignerCertificate lib sd = Some cert
              \<and> trustedCAs opts = Some cas
            \<longrightarrow> chainValid (details (validateSignature lib clock doc sg opts))
                  = (\<exists>ca \<in> set cas. sha256 (fingerprints ca) = sha256 (fingerprints cert)))"
proof -
  have f: "fst (validateCertificateChain lib cert cas)
             = (\<exists>ca \<in> set cas. sha256 (fingerprints ca) = sha256 (fingerprints cert))"
    using assms by (simp add: validateCertificateChain_def list_ex_iff)
  show ?thesis
    using f by (auto simp add: checked_details)
qed

text \<open>
  Claim C6, witness: the self-signed certificate \<open>A\<close> against itself as trusted CA, and
  against a CA with another fingerprint.
\<close>

theorem self_signed_chain_iff_fingerprint_witness:
  "fst (validateCertificateChain demoLib demoCert [demoCert])
   \<and> \<not> fst (validateCertificateChain demoLib demoCert
            [demoCert\<lparr>fingerprints := \<lparr>sha1 = ''SHA1:B'', sha256 = ''SHA256:B''\<rparr>\<rparr>])
   \<and> chainValid (details (validateSignature demoLib demoClock demoDocument ''3082''
        (defaultOptions\<lparr>trustedCAs := Some [demoCert]\<rparr>)))"
  using self_signed_chain_iff_fingerprint [where cas = "[demoCert]" and cert = demoCert
      and lib = demoLib and sg = "''3082''" and sd = demoSignedData
      and opts = "defaultOptions\<lparr>trustedCAs := Some [demoCert]\<rparr>"
      and clock = demoClock and doc = demoDocument]
    self_signed_chain_iff_fingerprint [where cert = demoCert and lib = demoLib
      and cas = "[demoCert\<lparr>fingerprints := \<lparr>sha1 = ''SHA1:B'', sha256 = ''SHA256:B''\<rparr>\<rparr>]"]
  by (simp add: demo_decode demo_signer demoCert_def)

section \<open>The signing time\<close>

lemma validateTimestampValidity_iff:
  "validateTimestampValidity now t = (\<not> (t > now \<or> now - t > 365 * 24 * 60 * 60 * 1000))"
  by (simp add: validateTimestampValidity_def)

lemma early_signedAt:
  "signedAt (details (createValidationResult v st es ws ts)) = None"
  "timestampValid (details (createValidationResult v st es ws ts)) = None"
  by (simp_all add: createValidationResult_def)

lemma timestamp_checked:
  "timestampValid (details (validateSignature lib clock doc sg opts))
     = (case signedAt (details (validateSignature lib clock doc sg opts)) of
          None \<Rightarrow> None
        | Some t \<Rightarrow> Some True)
   \<and> (\<forall>t. signedAt (details (validateSignature lib clock doc sg opts)) = Some t \<longrightarrow>
         (\<lparr>code = ''INVALID_TIMESTAMP'',
           message = ''Timestamp is outside acceptable range.'',
           severity = Warning\<rparr> \<in> set (warnings (validateSignature lib clock doc sg opts)))
          = (validateTimestamp opts
             \<and> (t > atTimestampCheck clock
                \<or> atTimestampCheck clock - t > 365 * 24 * 60 * 60 * 1000))
         \<and> (\<forall>e \<in> set (errors (validateSignature lib clock doc sg opts)).
               code e \<noteq> ''INVALID_TIMESTAMP''))"
proof (cases "getCMSSignedData lib sg")
  case (Inl m)
  then show ?thesis
    by (simp add: validateSignature_thrown early_signedAt)
next
  case (Inr decoded)
  show ?thesis
  proof (cases decoded)
    case None
    with Inr show ?thesis
      by (simp add: validateSignature_undecodable early_signedAt)
  next
    case (Some sd)
    show ?thesis
    proof (cases "extractSignerCertificate lib sd")
      case None
      with Inr Some show ?thesis
        by (simp add: validateSignature_no_signer early_signedAt)
    next
      case (Some c)
      with Inr \<open>decoded = Some sd\<close> have
        d: "getCMSSignedData lib sg = Inr (Some sd)"
        and e: "extractSignerCertificate lib sd = Some c"
        by simp_all
      show ?thesis
        by (simp add: checked_errors [OF d e] checked_warnings [OF d e] checked_details [OF d e]
            validateTimestampValidity_iff split: option.split)
    qed
  qed
qed

lemma extractTimestamp_absent:
  assumes "\<forall>si rest attrs. signerInfos sd = Some (si # rest) \<longrightarrow> signedAttrs si = Some attrs
             \<longrightarrow> (\<forall>a \<in> set attrs. attrType a \<noteq> ''1.2.840.113549.1.9.5'')"
  shows "extractTimestamp lib sd = None"
proof (cases "signerInfos sd")
  case None
  then show ?thesis by (simp add: extractTimestamp_def)
next
  case (Some infos)
  show ?thesis
  proof (cases infos)
    case Nil
    with Some show ?thesis by (simp add: extractTimestamp_def)
  next
    case (Cons si rest)
    show ?thesis
    proof (cases "signedAttrs si")
      case None
      with Some Cons show ?thesis by (simp add: extractTimestamp_def)
    next
      case (Some attrs)
      with assms \<open>signerInfos sd = Some infos\<close> Cons
      have "\<forall>a \<in> set attrs. attrType a \<noteq> ''1.2.840.113549.1.9.5''"
        by simp
      then have "find (\<lambda>a. attrType a = ''1.2.840.113549.1.9.5'') attrs = None"
        by (simp add: find_None_iff)
      with Some \<open>signerInfos sd = Some infos\<close> Cons show ?thesis
        by (simp add: extractTimestamp_def)
    qed
  qed
qed

lemma extractTimestamp_present:
  assumes "signerInfos sd = Some (si # rest)" and "signedAttrs si = Some attrs"
    and "find (\<lambda>a. attrType a = ''1.2.840.113549.1.9.5'') attrs = Some a"
    and "attrValue a = Some v" and "v \<noteq> []"
  shows "extractTimestamp lib sd = Some (newDate lib v)"
  using assms by (simp add: extractTimestamp_def)

lemma signedAt_of_result:
  "signedAt (details (validateSignature lib clock doc sg opts)) =
     (case getCMSSignedData lib sg of
        Inl m \<Rightarrow> None
      | Inr None \<Rightarrow> None
      | Inr (Some sd) \<Rightarrow>
          (case extractSignerCertificate lib sd of
             None \<Rightarrow> None
           | Some c \<Rightarrow> extractTimestamp lib sd))"
  by (simp add: validateSignature_thrown validateSignature_undecodable
      validateSignature_no_signer checked_details createValidationResult_def
      split: sum.split option.split)

text \<open>
  Claim C10. \<open>details.timestampValid\<close> is \<open>true\<close> when \<open>details.signedAt\<close> is defined and
  undefined otherwise. When \<open>signedAt\<close> is defined, the warning \<open>INVALID_TIMESTAMP\<close> is
  among the warnings exactly when \<open>validateTimestamp\<close> is set and the signing time is
  in the future or older than one year, and no error carries that code. When the
  signed attributes of the first signer hold no attribute of the type signing time
  (OID 1.2.840.113549.1.9.5), or the blob does not decode, \<open>signedAt\<close> and
  \<open>timestampValid\<close> are undefined. When a signer certificate is extracted and the
  first such attribute has a non-empty value, \<open>signedAt\<close> is the date made of that
  value and \<open>timestampValid\<close> is \<open>true\<close>.
\<close>

theorem timestampValid_follows_signedAt:
  "timestampValid (details (validateSignature lib clock doc sg opts))
     = (case signedAt (details (validateSignature lib clock doc sg opts)) of
          None \<Rightarrow> None
        | Some t \<Rightarrow> Some True)
   \<and> (\<forall>t. signedAt (details (validateSignature lib clock doc sg opts)) = Some t \<longrightarrow>
         (\<lparr>code = ''INVALID_TIMESTAMP'',
           message = ''Timestamp is outside acceptable range.'',
           severity = Warning\<rparr> \<in> set (warnings (validateSignature lib clock doc sg opts)))
          = (validateTimestamp opts
             \<and> (t > atTimestampCheck clock
                \<or> atTimestampCheck clock - t > 365 * 24 * 60 * 60 * 1000))
         \<and> (\<forall>e \<in> set (errors (validateSignature lib clock doc sg opts)).
               code e \<noteq> ''INVALID_TIMESTAMP''))
   \<and> (\<forall>sd. getCMSSignedData lib sg = Inr (Some sd) \<longrightarrow>
         (\<forall>si rest attrs. signerInfos sd = Some (si # rest) \<longrightarrow> signedAttrs si = Some attrs
            \<longrightarrow> (\<forall>a \<in> set attrs. attrType a \<noteq> ''1.2.840.113549.1.9.5'')) \<longrightarrow>
         signedAt (details (validateSignature lib clock doc sg opts)) = None
         \<and> timestampValid (details (validateSignature lib clock doc sg opts)) = None)
   \<and> ((\<forall>sd. getCMSSignedData lib sg \<noteq> Inr (Some sd)) \<longrightarrow>
         signedAt (details (validateSignature lib clock doc sg opts)) = None
         \<and> timestampValid (details (validateSignature lib clock doc sg opts)) = None)
   \<and> (\<forall>sd c si rest attrs a v.
         getCMSSignedData lib sg = Inr (Some sd) \<longrightarrow> extractSignerCertificate lib sd = Some c
         \<longrightarrow> signerInfos sd = Some (si # rest) \<longrightarrow> signedAttrs si = Some attrs
         \<longrightarrow> find (\<lambda>a. attrType a = ''1.2.840.113549.1.9.5'') attrs = Some a
         \<longrightarrow> attrValue a = Some v \<longrightarrow> v \<noteq> [] \<longrightarrow>
         signedAt (details (validateSignature lib clock doc sg opts)) = Some (newDate lib v)
         \<and> timestampValid (details (validateSignature lib clock doc sg opts)) = Some True)"
proof -
  note old = timestamp_checked [of lib clock doc sg opts]
  have tv: "timestampValid (details (validateSignature lib clock doc sg opts))
              = (case signedAt (details (validateSignature lib clock doc sg opts)) of
                   None \<Rightarrow> None
                 | Some t \<Rightarrow> Some True)"
    using old by blast
  have absent: "signedAt (details (validateSignature lib clock doc sg opts)) = None"
    if "getCMSSignedData lib sg = Inr (Some sd)"
      and "\<forall>si rest attrs. signerInfos sd = Some (si # rest) \<longrightarrow> signedAttrs si = Some attrs
             \<longrightarrow> (\<forall>a \<in> set attrs. attrType a \<noteq> ''1.2.840.113549.1.9.5'')"
    for sd
    using that by (simp add: signedAt_of_result extractTimestamp_absent split: option.split)
  have undecoded: "signedAt (details (validateSignature lib clock doc sg opts)) = None"
    if "\<forall>sd. getCMSSignedData lib sg \<noteq> Inr (Some sd)"
    using that by (simp add: signedAt_of_result split: sum.split option.split)
  have present: "signedAt (details (validateSignature lib clock doc sg opts))
                   = Some (newDate lib v)"
    if "getCMSSignedData lib sg = Inr (Some sd)" and "extractSignerCertificate lib sd = Some c"
      and "signerInfos sd = Some (si # rest)" and "signedAttrs si = Some attrs"
      and "find (\<lambda>a. attrType a = ''1.2.840.113549.1.9.5'') attrs = Some a"
      and "attrValue a = Some v" and "v \<noteq> []"
    for sd c si rest attrs a v
    using that by (simp add: signedAt_of_result extractTimestamp_present)
  show ?thesis
    apply (intro conjI)
        apply (rule tv)
       apply (use old in blast)
      apply (simp add: tv absent)
     apply (simp add: tv undecoded)
    apply (simp add: tv present)
    done
qed

text \<open>
  Claim C10, witness: the blob \<open>3082\<close>, signed at 1500, validated with
  \<open>validateTimestamp\<close> by a clock that reads 1402, and the blob \<open>3080\<close>, which has no
  signing time.
\<close>

theorem timestampValid_follows_signedAt_witness:
  "timestampValid (details (validateSignature demoLib behindClock demoDocument ''3082''
      (defaultOptions\<lparr>validateTimestamp := True\<rparr>))) = Some True
   \<and> \<lparr>code = ''INVALID_TIMESTAMP'', message = ''Timestamp is outside acceptable range.'',
       severity = Warning\<rparr>
       \<in> set (warnings (validateSignature demoLib behindClock demoDocument ''3082''
                 (defaultOptions\<lparr>validateTimestamp := True\<rparr>)))
   \<and> timestampValid (details (validateSignature demoLib demoClock demoDocument ''3080''
        defaultOptions)) = None"
  using timestampValid_follows_signedAt [where lib = demoLib and clock = behindClock
      and doc = demoDocument and sg = "''3082''"
      and opts = "defaultOptions\<lparr>validateTimestamp := True\<rparr>"]
    timestampValid_follows_signedAt [where lib = demoLib and clock = demoClock
      and doc = demoDocument and sg = "''3080''" and opts = defaultOptions]
    demo_plain_attrs
  by (simp add: behind_signedAt behind_reading demo_plain)

section \<open>The public key of a certificate\<close>

lemma parsePublicKey_ECDSA:
  assumes "getPublicKey x509 = Inr (ECDSAKey name)"
  shows "parsePublicKey x509 =
           Inr \<lparr>algorithm = ECDSA, keySize = 256, modulus = None, exponent = None,
                curve = Some name\<rparr>"
  using assms by (simp add: parsePublicKey_def)

text \<open>
  Claim C9 says that the key size of an ECDSA key follows from its curve, 384 for
  \<open>secp384r1\<close>. \<open>parseCertificate\<close> run on the certificate \<open>E\<close>, whose key is on
  \<open>secp384r1\<close>: the curve is reported and the key size is 256.
\<close>

theorem ecdsa_keySize_is_256:
  "map_sum id (\<lambda>cert. (curve (publicKey cert), keySize (publicKey cert)))
     (parseCertificate demoLib ''E'' Pem) = Inr (Some ''secp384r1'', 256)"
  by (simp add: parseCertificate_def parseCertificateTry_def demoLib_def demoX509_def
      parsePublicKey_def parseExtensions_def calculateFingerprints_def)

section \<open>Signing, then validating\<close>

lemma verifySignatureCryptography_iff:
  "verifySignatureCryptography lib doc sd c =
     (\<exists>si rest sv h x k.
        signerInfos sd = Some (si # rest) \<and> signature si = Some sv \<and> sv \<noteq> []
        \<and> hashHex lib (toHex doc) (orElse (digestAlgorithm si) ''sha256'') = Inr h
        \<and> readCertPEM lib (raw c) = Inr x \<and> getPublicKey x = Inr k
        \<and> signatureVerify lib (orElse (digestAlgorithm si) ''sha256'' @ ''withRSA'') k h sv
            = Inr True)"
proof (cases "signerInfos sd")
  case None
  then show ?thesis by (simp add: verifySignatureCryptography_def)
next
  case (Some infos)
  note infos = this
  show ?thesis
  proof (cases infos)
    case Nil
    with infos show ?thesis
      by (cases "hashHex lib (toHex doc) ''sha256''")
         (simp_all add: verifySignatureCryptography_def Let_def)
  next
    case (Cons si rest)
    note first = infos [unfolded Cons]
    show ?thesis
    proof (cases "hashHex lib (toHex doc) (orElse (digestAlgorithm si) ''sha256'')")
      case (Inl m)
      with first show ?thesis
        by (simp add: verifySignatureCryptography_def Let_def)
    next
      case (Inr h)
      note hash = this
      show ?thesis
      proof (cases "signature si")
        case None
        with first hash show ?thesis
          by (simp add: verifySignatureCryptography_def Let_def)
      next
        case (Some sv)
        note sigValue = this
        show ?thesis
        proof (cases "readCertPEM lib (raw c)")
          case (Inl m)
          with first hash sigValue show ?thesis
            by (simp add: verifySignatureCryptography_def Let_def)
        next
          case (Inr x)
          note x509 = this
          show ?thesis
          proof (cases "getPublicKey x")
            case (Inl m)
            with first hash sigValue x509 show ?thesis
              by (simp add: verifySignatureCryptography_def Let_def)
          next
            case (Inr k)
            with first hash sigValue x509 show ?thesis
              by (cases "signatureVerify lib
                    (orElse (digestAlgorithm si) ''sha256'' @ ''withRSA'') k h sv")
                 (simp_all add: verifySignatureCryptography_def Let_def)
          qed
        qed
      qed
    qed
  qed
qed

lemma signatureValid_iff:
  "signatureValid (details (validateSignature lib clock doc sg opts)) =
     (\<exists>sd c. getCMSSignedData lib sg = Inr (Some sd)
            \<and> extractSignerCertificate lib sd = Some c
            \<and> verifySignatureCryptography lib doc sd c)"
proof (cases "getCMSSignedData lib sg")
  case (Inl m)
  then show ?thesis
    by (simp add: validateSignature_thrown createValidationResult_def)
next
  case (Inr decoded)
  show ?thesis
  proof (cases decoded)
    case None
    with Inr show ?thesis
      by (simp add: validateSignature_undecodable createValidationResult_def)
  next
    case (Some sd)
    show ?thesis
    proof (cases "extractSignerCertificate lib sd")
      case None
      with Inr Some show ?thesis
        by (simp add: validateSignature_no_signer createValidationResult_def)
    next
      case (Some c)
      with Inr \<open>decoded = Some sd\<close> show ?thesis
        by (simp add: checked_details)
    qed
  qed
qed

lemma throwing_getExtInfo_signature:
  assumes "\<forall>pem x. readCertPEM lib pem = Inr x \<longrightarrow> (\<exists>m. getExtInfo x = Inl m)"
  shows "\<not> signatureValid (details (validateSignature lib clock doc sg opts))"
  by (simp add: signatureValid_iff throwing_getExtInfo_no_signer [OF assms])

lemma createSignature_algorithm:
  assumes "createSignature lib sclock d cert key sopts = Inr r"
  shows "resAlgorithm r =
           hashAlgOf (optAlgorithm sopts)
           @ (if algorithm (publicKey cert) = RSA then ''withRSA'' else ''withECDSA'')"
  using assms
  by (auto simp add: createSignature_def createSignatureTry_def Let_def
      split: sum.splits if_splits)

lemma ecdsa_signer_not_verified:
  assumes reject: "\<forall>alg name h s.
             signatureVerify lib (alg @ ''withRSA'') (ECDSAKey name) h s \<noteq> Inr True"
    and signer: "\<forall>sd c. getCMSSignedData lib sg = Inr (Some sd)
             \<longrightarrow> extractSignerCertificate lib sd = Some c
             \<longrightarrow> algorithm (publicKey c) = ECDSA"
  shows "\<not> signatureValid (details (validateSignature lib clock doc sg opts))"
proof
  assume "signatureValid (details (validateSignature lib clock doc sg opts))"
  then obtain sd c where d: "getCMSSignedData lib sg = Inr (Some sd)"
    and e: "extractSignerCertificate lib sd = Some c"
    and v: "verifySignatureCryptography lib doc sd c"
    by (auto simp add: signatureValid_iff)
  from v have "\<exists>si rest sv h x k.
        signerInfos sd = Some (si # rest) \<and> signature si = Some sv \<and> sv \<noteq> []
        \<and> hashHex lib (toHex doc) (orElse (digestAlgorithm si) ''sha256'') = Inr h
        \<and> readCertPEM lib (raw c) = Inr x \<and> getPublicKey x = Inr k
        \<and> signatureVerify lib (orElse (digestAlgorithm si) ''sha256'' @ ''withRSA'') k h sv
            = Inr True"
    by (simp only: verifySignatureCryptography_iff)
  then obtain si :: SignerInfo and sv h x k where x: "readCertPEM lib (raw c) = Inr x"
    and k: "getPublicKey x = Inr k"
    and ok: "signatureVerify lib (orElse (digestAlgorithm si) ''sha256'' @ ''withRSA'') k h sv
               = Inr True"
    by blast
  from extractSignerCertificate_Some [OF e] x
  have "parsePublicKey x = Inr (publicKey c)" by auto
  moreover from signer d e have "algorithm (publicKey c) = ECDSA" by blast
  ultimately obtain name where "getPublicKey x = Inr (ECDSAKey name)"
    using parsePublicKey_algorithm by blast
  with k have "k = ECDSAKey name" by simp
  with ok reject show False by blast
qed

text \<open>
  Claim C4 says that a signature made by \<open>createSignature\<close> validates with
  \<open>signatureValid\<close> true. For a signature that \<open>createSignature\<close> returned, whatever
  the document, the certificate, the key and the options: with a library whose
  \<open>getExtInfo()\<close> throws, \<open>signatureValid\<close> is false, because no blob yields a signer
  certificate; and for a certificate with an ECDSA key the signature is made under
  \<open><hash>withECDSA\<close>, while the validator asks the library to verify under
  \<open><digest>withRSA\<close>, so \<open>signatureValid\<close> is false with every library that does not
  accept an ECDSA key under an RSA algorithm.
\<close>

theorem created_signature_not_validated:
  assumes "createSignature lib sclock d cert key sopts = Inr r"
  shows "((\<forall>pem x. readCertPEM lib pem = Inr x \<longrightarrow> (\<exists>m. getExtInfo x = Inl m)) \<longrightarrow>
            \<not> signatureValid (details (validateSignature lib clock doc (resSignature r)
                  defaultOptions)))
         \<and> (algorithm (publicKey cert) = ECDSA \<longrightarrow>
              resAlgorithm r = hashAlgOf (optAlgorithm sopts) @ ''withECDSA'')
         \<and> ((\<forall>alg name h s.
                 signatureVerify lib (alg @ ''withRSA'') (ECDSAKey name) h s \<noteq> Inr True)
              \<and> (\<forall>sd c. getCMSSignedData lib (resSignature r) = Inr (Some sd)
                    \<longrightarrow> extractSignerCertificate lib sd = Some c
                    \<longrightarrow> algorithm (publicKey c) = ECDSA) \<longrightarrow>
              \<not> signatureValid (details (validateSignature lib clock doc (resSignature r)
                    defaultOptions)))"
  using throwing_getExtInfo_signature [of lib clock doc "resSignature r" defaultOptions]
    createSignature_algorithm [OF assms]
    ecdsa_signer_not_verified [of lib "resSignature r" clock doc defaultOptions]
  by auto

text \<open>
  Claim C4, on the small instance: the document \<open>hi\<close> signed with the certificate \<open>A\<close>
  and its key and validated with \<open>strictLib\<close>, and signed with the certificate \<open>E\<close>
  and validated with \<open>demoLib\<close>.
\<close>

theorem created_signature_not_validated_witness:
  "map_sum id
     (\<lambda>r. signatureValid (details (validateSignature strictLib demoClock demoDocument
              (resSignature r) defaultOptions)))
     (createSignature strictLib demoSignClock (Buffer demoDocument) demoCert ''K'' pkcs7Options)
   = Inr False
   \<and> map_sum id
     (\<lambda>r. (resAlgorithm r,
            signatureValid (details (validateSignature demoLib demoClock demoDocument
              (resSignature r) defaultOptions))))
     (createSignature demoLib demoSignClock (Buffer demoDocument) demoEcCert ''K'' pkcs7Options)
   = Inr (''sha256withECDSA'', False)"
  using created_signature_not_validated [OF strict_created, where clock = demoClock
      and doc = demoDocument]
    created_signature_not_validated [OF demo_created_E, where clock = demoClock
      and doc = demoDocument]
    strict_throws demo_rejects_EC
  by (simp add: strict_created demo_created_E demo_decode_E demo_signer_E demo_E_algorithm
      demo_hashAlg)

end
